theory Spec2Isabelle
  imports Complex_Main
begin

section \<open>JavaScript values used by the dashboard\<close>

text \<open>
  The dashboard component (\<^verbatim>\<open>App\<close>) keeps five pieces of React state and talks to
  three HTTP endpoints. Numbers are JavaScript numbers. A parsed number is kept here as
  the exact decimal value that was read (a rational); the rounding of that value to the
  nearest double and the sign of zero are not represented. \<open>NaN\<close> and the two
  infinities are values of their own, as in the language.
\<close>

datatype jsnum = NaN | PosInfinity | NegInfinity | Num rat

datatype js_error = NetworkError | SyntaxError | TypeError

text \<open>A settled promise: \<open>Inl\<close> is a rejection, \<open>Inr\<close> the value it resolved to.\<close>

type_synonym 'a promise = "js_error + 'a"

subsection \<open>\<^verbatim>\<open>parseFloat\<close>\<close>

text \<open>
  \<^verbatim>\<open>parseFloat(s)\<close> skips leading white space and reads the longest prefix that is a
  decimal literal: an optional sign, then \<^verbatim>\<open>Infinity\<close> or digits with an optional
  fraction and an optional exponent. Whatever follows the literal is ignored. When no
  prefix is a literal the result is \<open>NaN\<close>. Of the white-space characters only the
  ASCII ones are recognised here.
\<close>

definition is_space :: "char \<Rightarrow> bool" where
  "is_space c = (c \<in> set [CHR '' '', CHR 0x09, CHR 0x0A, CHR 0x0B, CHR 0x0C, CHR 0x0D])"

definition is_digit :: "char \<Rightarrow> bool" where
  "is_digit c = (c \<in> set ''0123456789'')"

definition digit_val :: "char \<Rightarrow> nat" where
  "digit_val c = of_char c - 48"

definition digits_val :: "string \<Rightarrow> nat" where
  "digits_val ds = foldl (\<lambda>a c. 10 * a + digit_val c) 0 ds"

fun sign_split :: "string \<Rightarrow> bool \<times> string" where
  "sign_split [] = (False, [])"
| "sign_split (c # cs) =
     (if c = CHR ''-'' then (True, cs)
      else if c = CHR ''+'' then (False, cs)
      else (False, c # cs))"

definition exponent_part :: "string \<Rightarrow> int" where
  "exponent_part r =
     (case r of
        [] \<Rightarrow> 0
      | c # u \<Rightarrow>
          if c = CHR ''e'' \<or> c = CHR ''E'' then
            (let (eneg, v) = sign_split u; ds = takeWhile is_digit v
             in if ds = [] then 0
                else if eneg then - int (digits_val ds) else int (digits_val ds))
          else 0)"

definition exp10 :: "int \<Rightarrow> rat" where
  "exp10 e = (if 0 \<le> e then 10 ^ nat e else 1 / 10 ^ nat (- e))"

definition parseFloat :: "string \<Rightarrow> jsnum" where
  "parseFloat input =
     (let (neg, t) = sign_split (dropWhile is_space input) in
      if take 8 t = ''Infinity'' then (if neg then NegInfinity else PosInfinity)
      else
        let ip = takeWhile is_digit t;
            r1 = dropWhile is_digit t;
            fp = (case r1 of [] \<Rightarrow> []
                  | c # u \<Rightarrow> if c = CHR ''.'' then takeWhile is_digit u else []);
            r2 = (case r1 of [] \<Rightarrow> []
                  | c # u \<Rightarrow> if c = CHR ''.'' then dropWhile is_digit u else r1)
        in if ip = [] \<and> fp = [] then NaN
           else Num ((if neg then - 1 else 1)
                     * (of_nat (digits_val ip) + of_nat (digits_val fp) / 10 ^ length fp)
                     * exp10 (exponent_part r2)))"

section \<open>Data model\<close>

text \<open>
  The body of \<^verbatim>\<open>/results\<close> and \<^verbatim>\<open>/results/{runId}\<close>. The source reads
  \<^verbatim>\<open>json.steps\<close> and \<^verbatim>\<open>json.returns\<close> through \<^verbatim>\<open>?.\<close>, so either may be
  absent (\<open>None\<close>); their entries arrive as text. The other properties are copied by
  the spread \<^verbatim>\<open>...json\<close> without being looked at.
\<close>

record results_json =
  json_steps :: "string list option"
  json_returns :: "string list option"
  json_best :: "string option"
  json_last :: "string option"
  json_elapsed :: "string list option"

text \<open>What \<^verbatim>\<open>liveData\<close> and every entry of \<^verbatim>\<open>runDataCache\<close> hold.\<close>

record series_data =
  steps :: "jsnum list"
  returns :: "jsnum list"
  best :: "string option"
  last_v :: "string option"
  elapsed :: "string list option"

text \<open>
  One element of the \<^verbatim>\<open>/runs\<close> array. \<^verbatim>\<open>elapsed_min\<close> is a whole number of
  minutes when present (JSON integers of magnitude below \<open>2 ^ 53\<close> are exact doubles,
  and the quotient by 60 of such an integer never rounds across an integer).
\<close>

record run_summary =
  run :: string
  model :: "string option"
  best_reward :: "rat option"
  last_avg_return :: "rat option"
  elapsed_min :: "int option"

record app_state =
  liveData :: series_data
  runs :: "run_summary list"
  activePlots :: "string list"
  runDataCache :: "string \<rightharpoonup> series_data"
  showAllRuns :: bool

definition initial_state :: app_state where
  "initial_state =
     \<lparr>liveData = \<lparr>steps = [], returns = [], best = None, last_v = None, elapsed = Some []\<rparr>,
      runs = [], activePlots = [], runDataCache = Map.empty, showAllRuns = False\<rparr>"

section \<open>Fetch operations\<close>

text \<open>
  What a step of the component does besides changing its state: the fetches it starts and
  the lines it writes with \<^verbatim>\<open>console.error\<close>. \<open>OnDemandFetch r\<close> is the call
  \<^verbatim>\<open>fetchRunData(r)\<close> of the cache-population effect, \<open>RefreshFetch r\<close> the same
  call made by the refresh timer, and \<open>DefaultSelection r\<close> records that the
  default-selection effect called \<^verbatim>\<open>setActivePlots([r])\<close>.
\<close>

datatype action =
    FetchLiveResults
  | FetchRuns
  | OnDemandFetch string
  | RefreshFetch string
  | ConsoleError string js_error
  | DefaultSelection string

definition parse_series :: "results_json \<Rightarrow> series_data" where
  "parse_series json =
     \<lparr>steps = (case json_steps json of None \<Rightarrow> [] | Some xs \<Rightarrow> map parseFloat xs),
      returns = (case json_returns json of None \<Rightarrow> [] | Some xs \<Rightarrow> map parseFloat xs),
      best = json_best json, last_v = json_last json, elapsed = json_elapsed json\<rparr>"

text \<open>
  Each operation awaits \<^verbatim>\<open>fetch(...)\<close> and then \<^verbatim>\<open>res.json()\<close>; either promise may
  reject, which leaves the \<^verbatim>\<open>try\<close> block before the state setter is reached. The
  \<open>_try\<close> functions are the \<^verbatim>\<open>try\<close> blocks, with the exception as \<open>Inl\<close>; the
  operations themselves add the \<^verbatim>\<open>catch\<close>. In \<^verbatim>\<open>fetchRunData\<close> the conversion of
  the entries sits in the updater given to \<^verbatim>\<open>setRunDataCache\<close>, which React calls
  after the \<^verbatim>\<open>try\<close> block has been left; on entries that are text
  \<^verbatim>\<open>parseFloat\<close> cannot throw, so the updater is applied here at once.
\<close>

definition await2 :: "'a promise promise \<Rightarrow> js_error + 'a" where
  "await2 res = (case res of Inl e \<Rightarrow> Inl e | Inr body \<Rightarrow> body)"



definition fetchLiveResults_try :: "results_json promise promise \<Rightarrow> app_state \<Rightarrow> js_error + app_state" where
  "fetchLiveResults_try res s =
     (case await2 res of
        Inl e \<Rightarrow> Inl e
      | Inr json \<Rightarrow> Inr (s\<lparr>liveData := parse_series json\<rparr>))"

definition fetchLiveResults :: "results_json promise promise \<Rightarrow> app_state \<Rightarrow> app_state \<times> action list" where
  "fetchLiveResults res s =
     (case fetchLiveResults_try res s of
        Inl e \<Rightarrow> (s, [ConsoleError ''Failed to fetch live results:'' e])
      | Inr s' \<Rightarrow> (s', []))"

definition fetchRuns_try :: "run_summary list promise promise \<Rightarrow> app_state \<Rightarrow> js_error + app_state" where
  "fetchRuns_try res s =
     (case await2 res of
        Inl e \<Rightarrow> Inl e
      | Inr json \<Rightarrow> Inr (s\<lparr>runs := json\<rparr>))"

definition fetchRuns :: "run_summary list promise promise \<Rightarrow> app_state \<Rightarrow> app_state \<times> action list" where
  "fetchRuns res s =
     (case fetchRuns_try res s of
        Inl e \<Rightarrow> (s, [ConsoleError ''Failed to fetch runs summary:'' e])
      | Inr s' \<Rightarrow> (s', []))"

definition fetchRunData_try :: "string \<Rightarrow> results_json promise promise \<Rightarrow> app_state \<Rightarrow> js_error + app_state" where
  "fetchRunData_try runId res s =
     (case await2 res of
        Inl e \<Rightarrow> Inl e
      | Inr json \<Rightarrow> Inr (s\<lparr>runDataCache := (runDataCache s)(runId \<mapsto> parse_series json)\<rparr>))"

definition fetchRunData :: "string \<Rightarrow> results_json promise promise \<Rightarrow> app_state \<Rightarrow> app_state \<times> action list" where
  "fetchRunData runId res s =
     (case fetchRunData_try runId res s of
        Inl e \<Rightarrow> (s, [ConsoleError (''Failed to fetch data for run '' @ runId @ '':'') e])
      | Inr s' \<Rightarrow> (s', []))"

section \<open>Selection and effects\<close>

text \<open>The updater passed to \<^verbatim>\<open>setActivePlots\<close> by a row's checkbox.\<close>

definition toggle :: "string \<Rightarrow> string list \<Rightarrow> string list" where
  "toggle r prev = (if r \<in> set prev then filter (\<lambda>id. id \<noteq> r) prev else prev @ [r])"

text \<open>
  The cache is a plain object that starts as \<^verbatim>\<open>{}\<close>, so \<^verbatim>\<open>runDataCache[runId]\<close>
  finds the entry stored under \<open>runId\<close> or, when there is none, a property inherited
  from \<^verbatim>\<open>Object.prototype\<close>. The map \<open>runDataCache\<close> holds the stored entries (the
  object's own properties); these are the names of the inherited ones. Every entry is
  an object and every inherited property is a function or an object, hence truthy.
\<close>

definition object_prototype_keys :: "string list" where
  "object_prototype_keys =
     [''constructor'', ''__defineGetter__'', ''__defineSetter__'', ''hasOwnProperty'',
      ''__lookupGetter__'', ''__lookupSetter__'', ''isPrototypeOf'', ''propertyIsEnumerable'',
      ''toString'', ''valueOf'', ''__proto__'', ''toLocaleString'']"

text \<open>Whether \<^verbatim>\<open>runDataCache[runId]\<close> is truthy.\<close>

definition cache_truthy :: "app_state \<Rightarrow> string \<Rightarrow> bool" where
  "cache_truthy s runId =
     (runDataCache s runId \<noteq> None \<or> runId \<in> set object_prototype_keys)"

text \<open>
  The effect with dependency \<^verbatim>\<open>[activePlots]\<close> that fills the cache: it starts a
  fetch for every selected identifier for which \<^verbatim>\<open>!runDataCache[runId]\<close> holds.
\<close>

definition cache_population_effect :: "app_state \<Rightarrow> action list" where
  "cache_population_effect s =
     map OnDemandFetch (filter (\<lambda>runId. \<not> cache_truthy s runId) (activePlots s))"

text \<open>
  Every call of \<^verbatim>\<open>setActivePlots\<close> in the source passes a fresh array, so the render
  that follows always re-runs the effects that depend on \<^verbatim>\<open>[activePlots]\<close>: the
  cache-population effect, and the effect that rebuilds the refresh timer.
\<close>

definition setActivePlots :: "string list \<Rightarrow> app_state \<Rightarrow> app_state \<times> action list" where
  "setActivePlots sel s =
     (let s' = s\<lparr>activePlots := sel\<rparr> in (s', cache_population_effect s'))"

text \<open>The effect with dependency \<^verbatim>\<open>[runs.length]\<close>.\<close>

definition default_selection_effect :: "app_state \<Rightarrow> app_state \<times> action list" where
  "default_selection_effect s =
     (if length (runs s) > 0 \<and> length (activePlots s) = 0 then
        (case setActivePlots [run (runs s ! 0)] s of
           (s', acts) \<Rightarrow> (s', DefaultSelection (run (runs s ! 0)) # acts))
      else (s, []))"

section \<open>The component as a transition system\<close>

text \<open>
  One event is one task of the browser's event loop: a timer tick, the settling of a
  fetch, or a click. The step runs the state setter and then the effects of the renders
  it causes.
\<close>

datatype event =
    LiveTick
  | RunTick
  | LiveResultsSettled "results_json promise promise"
  | RunsSettled "run_summary list promise promise"
  | RunDataSettled string "results_json promise promise"
  | CheckboxChange string
  | ShowAllClick

fun step :: "event \<Rightarrow> app_state \<Rightarrow> app_state \<times> action list" where
  "step LiveTick s = (s, [FetchLiveResults, FetchRuns])"
| "step RunTick s =
     (if length (activePlots s) > 0 then (s, map RefreshFetch (activePlots s)) else (s, []))"
| "step (LiveResultsSettled res) s = fetchLiveResults res s"
| "step (RunsSettled res) s =
     (case fetchRuns res s of
        (s1, errs) \<Rightarrow>
          if length (runs s1) \<noteq> length (runs s) then
            (case default_selection_effect s1 of (s2, acts) \<Rightarrow> (s2, errs @ acts))
          else (s1, errs))"
| "step (RunDataSettled runId res) s = fetchRunData runId res s"
| "step (CheckboxChange r) s = setActivePlots (toggle r (activePlots s)) s"
| "step ShowAllClick s = (s\<lparr>showAllRuns := \<not> showAllRuns s\<rparr>, [])"

text \<open>The first render: all four effects run once on the initial state.\<close>

definition mount :: "app_state \<times> action list" where
  "mount =
     (case default_selection_effect initial_state of
        (s, acts) \<Rightarrow> (s, [FetchLiveResults, FetchRuns] @ acts @ cache_population_effect s))"

fun exec :: "event list \<Rightarrow> app_state \<Rightarrow> app_state \<times> action list" where
  "exec [] s = (s, [])"
| "exec (e # es) s =
     (case step e s of
        (s1, a1) \<Rightarrow> (case exec es s1 of (s2, a2) \<Rightarrow> (s2, a1 @ a2)))"

text \<open>
  The rows the table shows, and the events the page offers: a checkbox exists for each
  visible row, and the show/hide link only when there is more than one run.
\<close>

definition visible_rows :: "app_state \<Rightarrow> run_summary list" where
  "visible_rows s = (if showAllRuns s then runs s else take 1 (runs s))"

fun enabled :: "event \<Rightarrow> app_state \<Rightarrow> bool" where
  "enabled (CheckboxChange r) s = (r \<in> set (map run (visible_rows s)))"
| "enabled ShowAllClick s = (length (runs s) > 1)"
| "enabled RunTick s = (length (activePlots s) > 0)"
| "enabled _ s = True"

fun feasible :: "event list \<Rightarrow> app_state \<Rightarrow> bool" where
  "feasible [] s = True"
| "feasible (e # es) s = (enabled e s \<and> feasible es (fst (step e s)))"

section \<open>What the view renders\<close>

subsection \<open>Chart series\<close>

text \<open>
  One element of the array given to the chart as \<^verbatim>\<open>data\<close>. The source's property
  names are \<^verbatim>\<open>x\<close>, \<^verbatim>\<open>y\<close>, \<^verbatim>\<open>type\<close>, \<^verbatim>\<open>mode\<close>, \<^verbatim>\<open>line.color\<close>,
  \<^verbatim>\<open>line.shape\<close> and \<^verbatim>\<open>name\<close>.
\<close>

record plot_trace =
  trace_x :: "jsnum list"
  trace_y :: "jsnum list"
  trace_type :: string
  trace_mode :: string
  line_color :: string
  line_shape :: string
  trace_name :: string

definition colors :: "string list" where
  "colors = [''#8b76e9'', ''#76a5e9'', ''#e97676'', ''#76e9b3'', ''#e9d176'', ''#e976d1'']"

text \<open>
  The callback of \<^verbatim>\<open>activePlots.map\<close>; \<open>None\<close> is the \<^verbatim>\<open>null\<close> that
  \<^verbatim>\<open>filter(Boolean)\<close> removes afterwards. \<^verbatim>\<open>steps\<close> of a cache entry is always an
  array, so \<^verbatim>\<open>!runData.steps\<close> never holds for an entry; an inherited property found
  in place of a missing entry has no \<^verbatim>\<open>steps\<close>, so it gives \<^verbatim>\<open>null\<close> like no entry.
\<close>

definition plot_entry :: "app_state \<Rightarrow> nat \<times> string \<Rightarrow> plot_trace option" where
  "plot_entry s = (\<lambda>(idx, runId).
     (case find (\<lambda>r. run r = runId) (runs s) of
        None \<Rightarrow> None
      | Some rn \<Rightarrow>
          (case runDataCache s runId of
             None \<Rightarrow> None
           | Some runData \<Rightarrow>
               if length (steps runData) = 0 then None
               else Some \<lparr>trace_x = steps runData, trace_y = returns runData,
                          trace_type = ''scatter'', trace_mode = ''lines'',
                          line_color = colors ! (idx mod length colors),
                          line_shape = ''linear'', trace_name = run rn\<rparr>)))"

definition plot_data :: "app_state \<Rightarrow> plot_trace list" where
  "plot_data s = List.map_filter (plot_entry s) (enumerate 0 (activePlots s))"

subsection \<open>The elapsed-time cell\<close>

text \<open>
  \<^verbatim>\<open>Number.prototype.toString\<close> on an integer, \<^verbatim>\<open>padStart\<close>, and the remainder
  operator \<^verbatim>\<open>%\<close>, whose result has the sign of the dividend.
\<close>

definition digit_char :: "nat \<Rightarrow> char" where
  "digit_char d = ''0123456789'' ! d"

fun nat_digits :: "nat \<Rightarrow> string" where
  "nat_digits n = (if n < 10 then [digit_char n] else nat_digits (n div 10) @ [digit_char (n mod 10)])"

declare nat_digits.simps [simp del]

definition toString :: "int \<Rightarrow> string" where
  "toString n = (if n < 0 then CHR ''-'' # nat_digits (nat (- n)) else nat_digits (nat n))"

definition padStart :: "nat \<Rightarrow> char \<Rightarrow> string \<Rightarrow> string" where
  "padStart w c str = replicate (w - length str) c @ str"

definition js_rem :: "int \<Rightarrow> int \<Rightarrow> int" where
  "js_rem a b = sgn a * (\<bar>a\<bar> mod \<bar>b\<bar>)"

text \<open>
  The cell is guarded by the truthiness of \<^verbatim>\<open>run.elapsed_min\<close>: \<^verbatim>\<open>undefined\<close>,
  \<^verbatim>\<open>null\<close> and the number 0 all take the placeholder branch.
\<close>

definition elapsed_cell :: "run_summary \<Rightarrow> string" where
  "elapsed_cell r =
     (case elapsed_min r of
        None \<Rightarrow> ''-''
      | Some e \<Rightarrow>
          if e = 0 then ''-''
          else
            (let totalMinutes = e;
                 hours = totalMinutes div 60;
                 minutes = js_rem totalMinutes 60;
                 pad = (\<lambda>num. padStart 2 (CHR ''0'') (toString num))
             in pad hours @ '':'' @ pad minutes))"

section \<open>Observations on executions\<close>

fun is_toggle :: "event \<Rightarrow> bool" where
  "is_toggle (CheckboxChange r) = True"
| "is_toggle _ = False"

fun is_default_selection :: "action \<Rightarrow> bool" where
  "is_default_selection (DefaultSelection r) = True"
| "is_default_selection _ = False"

text \<open>How often the default-selection effect selected a run during an execution.\<close>

definition default_selections :: "action list \<Rightarrow> nat" where
  "default_selections acts = length (filter is_default_selection acts)"

text \<open>How often a click on a checkbox left the selection empty.\<close>

fun emptyings :: "event list \<Rightarrow> app_state \<Rightarrow> nat" where
  "emptyings [] s = 0"
| "emptyings (e # es) s =
     (if is_toggle e \<and> activePlots (fst (step e s)) = [] then 1 else 0)
     + emptyings es (fst (step e s))"

text \<open>
  Nothing has been selected so far: the user has not clicked a checkbox and the
  default-selection effect has not selected a run.
\<close>

definition no_selection_made :: "event list \<Rightarrow> action list \<Rightarrow> bool" where
  "no_selection_made es acts =
     (list_all (\<lambda>e. \<not> is_toggle e) es \<and> list_all (\<lambda>a. \<not> is_default_selection a) acts)"

text \<open>How often the cache-population effect started a fetch for \<open>r\<close>.\<close>

definition on_demand_fetches :: "string \<Rightarrow> action list \<Rightarrow> nat" where
  "on_demand_fetches r acts = count_list acts (OnDemandFetch r)"

text \<open>How often the selection was set: by a checkbox or by the default-selection effect.\<close>

definition selection_changes :: "event list \<Rightarrow> action list \<Rightarrow> nat" where
  "selection_changes es acts = length (filter is_toggle es) + default_selections acts"

text \<open>
  The step called \<^verbatim>\<open>setActivePlots\<close>: it was a checkbox click, or the
  default-selection effect selected a run in it.
\<close>

definition sets_selection :: "event \<Rightarrow> app_state \<Rightarrow> bool" where
  "sets_selection e s = (is_toggle e \<or> 0 < default_selections (snd (step e s)))"

text \<open>
  A selected identifier the chart can draw: its run is in the run list and its cache
  entry has a non-empty \<^verbatim>\<open>steps\<close> sequence.
\<close>

definition plottable :: "app_state \<Rightarrow> string \<Rightarrow> bool" where
  "plottable s runId =
     (runId \<in> set (map run (runs s))
      \<and> (case runDataCache s runId of None \<Rightarrow> False | Some d \<Rightarrow> steps d \<noteq> []))"

section \<open>The specification's wording, for comparison\<close>


text \<open>
  The interface description says of \<^verbatim>\<open>steps\<close> and \<^verbatim>\<open>returns\<close> that unparsable
  entries are dropped. Written out, that reading of a received array is:
\<close>

definition spec_parse_entries :: "string list \<Rightarrow> jsnum list" where
  "spec_parse_entries xs = filter (\<lambda>v. v \<noteq> NaN) (map parseFloat xs)"

text \<open>
  The view description gives the elapsed cell as the integer quotient by 60 and the
  remainder, both zero-padded to two digits.
\<close>

definition spec_hhmm :: "int \<Rightarrow> string" where
  "spec_hhmm n =
     padStart 2 (CHR ''0'') (toString \<lfloor>(of_int n :: rat) / 60\<rfloor>)
     @ '':'' @ padStart 2 (CHR ''0'') (toString (n mod 60))"

text \<open>
  The view description gives the series of a selected run as its cached steps and
  returns, labelled with the identifier and coloured by the identifier's position in
  the selection, modulo the palette.
\<close>

definition spec_series :: "app_state \<Rightarrow> nat \<times> string \<Rightarrow> plot_trace" where
  "spec_series s = (\<lambda>(idx, runId).
     \<lparr>trace_x = (case runDataCache s runId of None \<Rightarrow> [] | Some d \<Rightarrow> steps d),
      trace_y = (case runDataCache s runId of None \<Rightarrow> [] | Some d \<Rightarrow> returns d),
      trace_type = ''scatter'', trace_mode = ''lines'',
      line_color = colors ! (idx mod 6),
      line_shape = ''linear'', trace_name = runId\<rparr>)"

section \<open>Sample data\<close>

definition summary :: "string \<Rightarrow> int option \<Rightarrow> run_summary" where
  "summary r e =
     \<lparr>run = r, model = Some ''PPO'', best_reward = None, last_avg_return = None,
      elapsed_min = e\<rparr>"

definition sample_json :: results_json where
  "sample_json =
     \<lparr>json_steps = Some [''1'', ''2'', ''x'', ''4''],
      json_returns = Some [''0.1'', ''0.2'', ''0.3'', ''0.4''],
      json_best = None, json_last = None, json_elapsed = None\<rparr>"

text \<open>
  Two executions. In the first the only run is selected by default, the user clears its
  checkbox, and the next poll reports a newer run. In the second the first run is
  selected by default and, before its data has arrived, the user shows all runs and
  ticks the second one.
\<close>

definition trace_reselect :: "event list" where
  "trace_reselect =
     [RunsSettled (Inr (Inr [summary ''r1'' (Some 125)])),
      CheckboxChange ''r1'',
      RunsSettled (Inr (Inr [summary ''r2'' None, summary ''r1'' (Some 125)]))]"

definition trace_refetch :: "event list" where
  "trace_refetch =
     [RunsSettled (Inr (Inr [summary ''r1'' (Some 125), summary ''r2'' (Some 59)])),
      ShowAllClick,
      CheckboxChange ''r2'']"


text \<open>A state in which two runs are selected and only the second has cached data.\<close>

definition sample_state :: app_state where
  "sample_state =
     \<lparr>liveData = liveData initial_state,
      runs = [summary ''r1'' (Some 125), summary ''r2'' (Some 59)],
      activePlots = [''r1'', ''r2''],
      runDataCache = [''r2'' \<mapsto> parse_series sample_json],
      showAllRuns = True\<rparr>"

text \<open>
  A state in which three identifiers are selected, all three have cached data, and the
  run list no longer holds the first.
\<close>

definition sample_state_unlisted :: app_state where
  "sample_state_unlisted =
     \<lparr>liveData = liveData initial_state,
      runs = [summary ''r1'' (Some 125), summary ''r2'' (Some 59)],
      activePlots = [''r0'', ''r1'', ''r2''],
      runDataCache = [''r0'' \<mapsto> parse_series sample_json, ''r1'' \<mapsto> parse_series sample_json,
                      ''r2'' \<mapsto> parse_series sample_json],
      showAllRuns = True\<rparr>"

section \<open>Unfolding rules and basic facts\<close>

lemmas parse_defs = parseFloat_def is_space_def is_digit_def digit_val_def digits_val_def
  exponent_part_def exp10_def

lemmas fetch_defs = fetchLiveResults_def fetchLiveResults_try_def fetchRuns_def fetchRuns_try_def
  fetchRunData_def fetchRunData_try_def await2_def

lemmas effect_defs = setActivePlots_def default_selection_effect_def cache_population_effect_def
  cache_truthy_def object_prototype_keys_def toggle_def Let_def

lemmas sample_defs = summary_def sample_json_def trace_reselect_def trace_refetch_def
  sample_state_def initial_state_def visible_rows_def

lemmas count_defs = default_selections_def on_demand_fetches_def selection_changes_def
  no_selection_made_def

lemma exec_fst: "fst (exec (e # es) s) = fst (exec es (fst (step e s)))"
  by (simp add: split_beta)

lemma exec_snd: "snd (exec (e # es) s) = snd (step e s) @ snd (exec es (fst (step e s)))"
  by (simp add: split_beta)

lemma mount_initial: "mount = (initial_state, [FetchLiveResults, FetchRuns])"
  by (simp add: mount_def initial_state_def default_selection_effect_def cache_population_effect_def)

section \<open>Parsing of the series\<close>

text \<open>
  Claim C1 says that an entry of \<^verbatim>\<open>steps\<close> or \<^verbatim>\<open>returns\<close> that does not parse is
  dropped. The operations map \<^verbatim>\<open>parseFloat\<close> over the received arrays and nothing
  filters the result, so this is what holds instead (C1, amended): on a successful
  \<^verbatim>\<open>/results\<close> or \<^verbatim>\<open>/results/{runId}\<close> response the stored series is the
  received one with every entry converted at its own position; the stored sequences
  have the lengths of the received ones, and an entry that does not parse is kept as
  \<open>NaN\<close>. For steps 1, 2, x, 4 and returns 0.1, 0.2, 0.3, 0.4 the stored steps are
  1, 2, \<open>NaN\<close>, 4 and both sequences have four entries.
\<close>

theorem parsed_entries_stay_in_place:
  "liveData (fst (fetchLiveResults (Inr (Inr json)) s)) = parse_series json
   \<and> runDataCache (fst (fetchRunData runId (Inr (Inr json)) s)) runId = Some (parse_series json)
   \<and> (json_steps json = Some xs \<longrightarrow>
        steps (parse_series json) = map parseFloat xs
        \<and> length (steps (parse_series json)) = length xs)
   \<and> (json_returns json = Some ys \<longrightarrow>
        returns (parse_series json) = map parseFloat ys
        \<and> length (returns (parse_series json)) = length ys)
   \<and> steps (parse_series sample_json) = [Num 1, Num 2, NaN, Num 4]
   \<and> returns (parse_series sample_json) = [Num (1 / 10), Num (1 / 5), Num (3 / 10), Num (2 / 5)]"
proof (intro conjI impI)
  show "steps (parse_series sample_json) = [Num 1, Num 2, NaN, Num 4]"
    by (simp add: parse_series_def sample_json_def parse_defs)
  show "returns (parse_series sample_json) = [Num (1 / 10), Num (1 / 5), Num (3 / 10), Num (2 / 5)]"
    by (simp add: parse_series_def sample_json_def parse_defs)
qed (simp_all add: fetch_defs parse_series_def)

theorem parsed_entries_stay_in_place_witness:
  "json_steps sample_json = Some [''1'', ''2'', ''x'', ''4'']
   \<and> json_returns sample_json = Some [''0.1'', ''0.2'', ''0.3'', ''0.4'']
   \<and> length (steps (parse_series sample_json)) = 4
   \<and> length (returns (parse_series sample_json)) = 4
   \<and> steps (parse_series sample_json) ! 2 = NaN"
proof -
  have h: "json_steps sample_json = Some [''1'', ''2'', ''x'', ''4'']"
    "json_returns sample_json = Some [''0.1'', ''0.2'', ''0.3'', ''0.4'']"
    by (simp_all add: sample_json_def)
  from parsed_entries_stay_in_place
         [of sample_json _ _ "[''1'', ''2'', ''x'', ''4'']" "[''0.1'', ''0.2'', ''0.3'', ''0.4'']"] h
  show ?thesis by (simp add: parse_defs)
qed

text \<open>
  C1 as stated fails on the example of the specification: the stored steps are not the
  received ones with the unparsable entry removed.
\<close>

theorem unparsable_entry_not_dropped:
  "steps (parse_series sample_json) = [Num 1, Num 2, NaN, Num 4]
   \<and> \<not> (steps (parse_series sample_json) = spec_parse_entries [''1'', ''2'', ''x'', ''4''])"
  by (simp add: parse_series_def sample_json_def spec_parse_entries_def parse_defs)

section \<open>Failing fetches\<close>




section \<open>The selection\<close>

text \<open>
  Claim C5: clicking the checkbox of the same run twice gives back a selection with the
  same members, for the updater itself and for two steps of the component.
\<close>

theorem toggle_twice_membership:
  "set (toggle r (toggle r S)) = set S
   \<and> set (activePlots (fst (step (CheckboxChange r) (fst (step (CheckboxChange r) s)))))
       = set (activePlots s)"
  by (auto simp: toggle_def setActivePlots_def Let_def)

theorem toggle_twice_membership_witness:
  "set (toggle ''r1'' (toggle ''r1'' [''r2'', ''r1''])) = set [''r2'', ''r1'']
   \<and> toggle ''r1'' (toggle ''r1'' [''r2'', ''r1'', ''r3'']) = [''r2'', ''r3'', ''r1'']"
  using toggle_twice_membership [of "''r1''" "[''r2'', ''r1'']"]
  by (simp add: toggle_def)

lemma toggle_distinct: "distinct S \<Longrightarrow> distinct (toggle r S)"
  by (simp add: toggle_def)

lemma step_activePlots_cases:
  "activePlots (fst (step e s)) = activePlots s
   \<or> (\<exists>r. e = CheckboxChange r \<and> activePlots (fst (step e s)) = toggle r (activePlots s))
   \<or> (\<exists>res rs. e = RunsSettled res \<and> await2 res = Inr rs \<and> rs \<noteq> []
         \<and> length rs \<noteq> length (runs s) \<and> activePlots s = []
         \<and> activePlots (fst (step e s)) = [run (rs ! 0)])"
  by (cases e)
     (auto simp: fetchLiveResults_def fetchLiveResults_try_def fetchRuns_def fetchRuns_try_def
        fetchRunData_def fetchRunData_try_def setActivePlots_def default_selection_effect_def
        Let_def
      split: sum.splits)

lemma step_distinct: "distinct (activePlots s) \<Longrightarrow> distinct (activePlots (fst (step e s)))"
  using step_activePlots_cases [of e s] by (auto simp: toggle_distinct)

lemma exec_distinct: "distinct (activePlots s) \<Longrightarrow> distinct (activePlots (fst (exec es s)))"
  by (induction es arbitrary: s) (simp_all add: exec_fst step_distinct del: exec.simps(2))

text \<open>
  Claim C10: the selection never holds an identifier twice. It is duplicate-free in
  every state the component reaches, and each way of changing it (the checkbox updater,
  the default-selection effect, and hence every step) keeps a duplicate-free selection
  duplicate-free.
\<close>

theorem selection_never_duplicates:
  "distinct (activePlots (fst (exec es initial_state)))
   \<and> (distinct S \<longrightarrow> distinct (toggle r S))
   \<and> (distinct (activePlots s) \<longrightarrow> distinct (activePlots (fst (default_selection_effect s))))
   \<and> (distinct (activePlots s) \<longrightarrow> distinct (activePlots (fst (step e s))))"
  by (auto simp: exec_distinct initial_state_def toggle_distinct step_distinct
      default_selection_effect_def setActivePlots_def Let_def)

theorem selection_never_duplicates_witness:
  "distinct (activePlots (fst (exec trace_refetch initial_state)))
   \<and> distinct [''r1'', ''r2''] \<and> distinct (toggle ''r3'' [''r1'', ''r2''])
   \<and> distinct (activePlots sample_state)
   \<and> distinct (activePlots (fst (step (CheckboxChange ''r1'') sample_state)))"
proof -
  have a: "distinct [''r1'', ''r2'']" "distinct (activePlots sample_state)"
    by (simp_all add: sample_state_def)
  from selection_never_duplicates
         [of trace_refetch "[''r1'', ''r2'']" "''r3''" sample_state "CheckboxChange ''r1''"] a
  show ?thesis by blast
qed

section \<open>Default selection\<close>

lemma step_untouched:
  assumes "runs s = []" "activePlots s = []" "\<not> is_toggle e"
    "list_all (\<lambda>a. \<not> is_default_selection a) (snd (step e s))"
  shows "runs (fst (step e s)) = [] \<and> activePlots (fst (step e s)) = []"
  using assms
  by (cases e)
     (auto simp: fetchLiveResults_def fetchLiveResults_try_def fetchRuns_def fetchRuns_try_def
        fetchRunData_def fetchRunData_try_def setActivePlots_def default_selection_effect_def
        Let_def
      split: sum.splits if_splits)

lemma exec_untouched:
  "runs s = [] \<Longrightarrow> activePlots s = [] \<Longrightarrow> no_selection_made es (snd (exec es s))
   \<Longrightarrow> runs (fst (exec es s)) = [] \<and> activePlots (fst (exec es s)) = []"
proof (induction es arbitrary: s)
  case Nil
  then show ?case by simp
next
  case (Cons e es)
  from Cons.prems(3)
  have a: "\<not> is_toggle e" "list_all (\<lambda>a. \<not> is_default_selection a) (snd (step e s))"
    and b: "no_selection_made es (snd (exec es (fst (step e s))))"
    by (simp_all add: no_selection_made_def exec_snd del: exec.simps(2))
  from step_untouched [OF Cons.prems(1,2) a]
  have "runs (fst (step e s)) = []" "activePlots (fst (step e s)) = []" by simp_all
  from Cons.IH [OF this b] show ?case by (simp add: exec_fst del: exec.simps(2))
qed

lemma first_response_selects:
  assumes "runs s = []" "activePlots s = []" "rs \<noteq> []"
  shows "activePlots (fst (step (RunsSettled (Inr (Inr rs))) s)) = [run (rs ! 0)]"
    and "filter is_default_selection (snd (step (RunsSettled (Inr (Inr rs))) s))
          = [DefaultSelection (run (rs ! 0))]"
  using assms
  by (simp_all add: fetchRuns_def fetchRuns_try_def await2_def default_selection_effect_def
      setActivePlots_def cache_population_effect_def Let_def)

text \<open>
  Claim C3: take any execution from the initial state in which nothing has been selected
  yet, neither by a checkbox nor by the default-selection effect (the selection is then
  still empty). When a \<^verbatim>\<open>/runs\<close> response with at least one entry arrives, the
  selection becomes exactly the run at position 0 of the response, and the
  default-selection effect selects that run and no other.
\<close>

theorem first_nonempty_runs_selects_head:
  assumes "no_selection_made es (snd (exec es initial_state))" and "rs \<noteq> []"
  shows "activePlots (fst (step (RunsSettled (Inr (Inr rs))) (fst (exec es initial_state))))
           = [run (rs ! 0)]
    \<and> filter is_default_selection
         (snd (step (RunsSettled (Inr (Inr rs))) (fst (exec es initial_state))))
        = [DefaultSelection (run (rs ! 0))]"
proof -
  have "runs initial_state = []" "activePlots initial_state = []"
    by (simp_all add: initial_state_def)
  from exec_untouched [OF this assms(1)]
  have "runs (fst (exec es initial_state)) = []" "activePlots (fst (exec es initial_state)) = []"
    by simp_all
  from first_response_selects [OF this assms(2)] show ?thesis by simp
qed

theorem first_nonempty_runs_selects_head_witness:
  "no_selection_made [LiveTick, RunsSettled (Inr (Inr []))]
      (snd (exec [LiveTick, RunsSettled (Inr (Inr []))] initial_state))
   \<and> [summary ''r2'' None, summary ''r1'' (Some 125)] \<noteq> []
   \<and> activePlots
        (fst (step (RunsSettled (Inr (Inr [summary ''r2'' None, summary ''r1'' (Some 125)])))
               (fst (exec [LiveTick, RunsSettled (Inr (Inr []))] initial_state))))
       = [''r2'']"
proof -
  have h1: "no_selection_made [LiveTick, RunsSettled (Inr (Inr []))]
      (snd (exec [LiveTick, RunsSettled (Inr (Inr []))] initial_state))"
    by (simp add: sample_defs fetch_defs effect_defs count_defs)
  have h2: "[summary ''r2'' None, summary ''r1'' (Some 125)] \<noteq> []" by simp
  from first_nonempty_runs_selects_head [OF h1 h2] h1 h2 show ?thesis
    by (simp add: summary_def)
qed

lemma step_default_count:
  "default_selections (snd (step e s)) + (if activePlots (fst (step e s)) = [] then 1 else 0)
   \<le> (if activePlots s = [] then 1 else 0)
     + (if is_toggle e \<and> activePlots (fst (step e s)) = [] then 1 else 0)"
  by (cases e)
     (auto simp: default_selections_def fetchLiveResults_def fetchLiveResults_try_def
        fetchRuns_def fetchRuns_try_def fetchRunData_def fetchRunData_try_def
        setActivePlots_def default_selection_effect_def Let_def cache_population_effect_def
        comp_def
      split: sum.splits if_splits)

lemma exec_default_count:
  "default_selections (snd (exec es s)) \<le> (if activePlots s = [] then 1 else 0) + emptyings es s"
proof (induction es arbitrary: s)
  case Nil
  then show ?case by (simp add: default_selections_def)
next
  case (Cons e es)
  have "default_selections (snd (exec (e # es) s))
        = default_selections (snd (step e s))
          + default_selections (snd (exec es (fst (step e s))))"
    by (simp add: exec_snd default_selections_def del: exec.simps(2))
  with Cons.IH [of "fst (step e s)"] step_default_count [of e s]
  show ?case by (simp split: if_splits)
qed

lemma step_default_iff:
  "DefaultSelection r \<in> set (snd (step e s)) \<longleftrightarrow>
   (\<exists>res rs. e = RunsSettled res \<and> await2 res = Inr rs \<and> length rs \<noteq> length (runs s)
      \<and> rs \<noteq> [] \<and> activePlots s = [] \<and> r = run (rs ! 0))"
  by (cases e)
     (auto simp: fetchLiveResults_def fetchLiveResults_try_def fetchRuns_def fetchRuns_try_def
        fetchRunData_def fetchRunData_try_def setActivePlots_def default_selection_effect_def
        Let_def cache_population_effect_def
      split: sum.splits if_splits)

lemma step_default_le1: "default_selections (snd (step e s)) \<le> 1"
  using step_default_count [of e s] by (simp split: if_splits)

text \<open>
  Claim C2 says that the default-selection rule fires at most once per view lifetime,
  even if the user later empties the selection while the run list changes. The effect
  is guarded only by the selection being empty and runs again whenever the length of
  the run list changes, so this is what holds instead (C2, amended): the rule selects
  a run in a step exactly when that step completes a \<^verbatim>\<open>/runs\<close> request with a
  non-empty list whose length differs from that of the list held before, while the
  selection is empty, and the run it selects is the first of the new list; it does
  not fire at the first render, and at most once in a step. In every execution the
  number of automatic selections is at most one more than the number of times a
  checkbox click left the selection empty; in particular it is at most one as long as
  the user never empties the selection.
\<close>

theorem default_selection_firing_rule:
  "(DefaultSelection r \<in> set (snd (step e s)) \<longleftrightarrow>
      (\<exists>res rs. e = RunsSettled res \<and> await2 res = Inr rs \<and> length rs \<noteq> length (runs s)
         \<and> rs \<noteq> [] \<and> activePlots s = [] \<and> r = run (rs ! 0)))
   \<and> default_selections (snd (step e s)) \<le> 1
   \<and> default_selections (snd mount) = 0
   \<and> default_selections (snd (exec es initial_state)) \<le> 1 + emptyings es initial_state"
  using exec_default_count [of es initial_state] step_default_iff [of r e s]
    step_default_le1 [of e s]
  by (simp add: initial_state_def mount_initial default_selections_def)

text \<open>
  Instances: the first non-empty reply fires the rule; after the user has emptied the
  selection, a reply of the same length does not fire it and a longer one does.
\<close>

theorem default_selection_firing_rule_witness:
  "DefaultSelection ''r1''
     \<in> set (snd (step (RunsSettled (Inr (Inr [summary ''r1'' (Some 125)]))) initial_state))
   \<and> activePlots (fst (exec (take 2 trace_reselect) initial_state)) = []
   \<and> length (runs (fst (exec (take 2 trace_reselect) initial_state))) = 1
   \<and> DefaultSelection ''r3''
     \<notin> set (snd (step (RunsSettled (Inr (Inr [summary ''r3'' None])))
                   (fst (exec (take 2 trace_reselect) initial_state))))
   \<and> DefaultSelection ''r2''
     \<in> set (snd (step (RunsSettled (Inr (Inr [summary ''r2'' None, summary ''r1'' (Some 125)])))
                   (fst (exec (take 2 trace_reselect) initial_state))))
   \<and> default_selections (snd (exec trace_reselect initial_state)) = 2
   \<and> emptyings trace_reselect initial_state = 1
   \<and> default_selections (snd (exec trace_reselect initial_state))
       \<le> 1 + emptyings trace_reselect initial_state"
proof -
  have a: "activePlots (fst (exec (take 2 trace_reselect) initial_state)) = []"
    "length (runs (fst (exec (take 2 trace_reselect) initial_state))) = 1"
    "runs initial_state = []" "activePlots initial_state = []"
    by (simp_all add: sample_defs fetch_defs effect_defs)
  have b: "default_selections (snd (exec trace_reselect initial_state)) = 2"
    "emptyings trace_reselect initial_state = 1"
    by (simp_all add: sample_defs fetch_defs effect_defs count_defs)
  from default_selection_firing_rule
         [of "''r1''" "RunsSettled (Inr (Inr [summary ''r1'' (Some 125)]))" initial_state
             trace_reselect]
       default_selection_firing_rule
         [of "''r3''" "RunsSettled (Inr (Inr [summary ''r3'' None]))"
             "fst (exec (take 2 trace_reselect) initial_state)"]
       default_selection_firing_rule
         [of "''r2''" "RunsSettled (Inr (Inr [summary ''r2'' None, summary ''r1'' (Some 125)]))"
             "fst (exec (take 2 trace_reselect) initial_state)"]
       a b
  show ?thesis by (simp add: await2_def summary_def)
qed

text \<open>
  C2 as stated fails: the only run is selected by default, the user clears its checkbox,
  the next poll lists a second run, and the effect selects automatically a second time.
  Every event of this execution is one the page offers.
\<close>

theorem default_selection_fires_twice:
  "feasible trace_reselect initial_state
   \<and> \<not> (default_selections (snd (exec trace_reselect initial_state)) \<le> 1)"
  by (simp add: sample_defs fetch_defs effect_defs count_defs)

section \<open>Cache population\<close>

lemma count_on_demand_map: "count_list (map OnDemandFetch xs) (OnDemandFetch r) = count_list xs r"
  by (induction xs) simp_all

lemma count_refresh_map: "count_list (map RefreshFetch xs) (OnDemandFetch r) = 0"
  by (induction xs) simp_all

lemma effect_no_default: "default_selections (cache_population_effect s) = 0"
  by (simp add: default_selections_def cache_population_effect_def filter_empty_conv image_iff)

lemma count_filter_distinct:
  "distinct xs \<Longrightarrow> count_list (filter P xs) r = (if r \<in> set xs \<and> P r then 1 else 0)"
proof (induction xs)
  case Nil
  then show ?case by simp
next
  case (Cons x xs)
  then show ?case by (auto simp: count_list_0_iff)
qed

lemma effect_on_demand_exact:
  "distinct (activePlots s) \<Longrightarrow>
   on_demand_fetches r (cache_population_effect s)
     = (if r \<in> set (activePlots s) \<and> \<not> cache_truthy s r then 1 else 0)"
  by (simp add: on_demand_fetches_def cache_population_effect_def count_on_demand_map
      count_filter_distinct)

lemma effect_on_demand_cached:
  "runDataCache s r \<noteq> None \<Longrightarrow> on_demand_fetches r (cache_population_effect s) = 0"
  by (auto simp: on_demand_fetches_def cache_population_effect_def cache_truthy_def
      count_list_0_iff)

lemma cache_truthy_activePlots [simp]:
  "cache_truthy (s\<lparr>activePlots := sel\<rparr>) r = cache_truthy s r"
  by (simp add: cache_truthy_def)

lemma cache_truthy_runs [simp]: "cache_truthy (s\<lparr>runs := rs\<rparr>) r = cache_truthy s r"
  by (simp add: cache_truthy_def)

lemma step_on_demand_exact:
  assumes d: "distinct (activePlots s)"
  shows "on_demand_fetches r (snd (step e s))
     = (if sets_selection e s \<and> r \<in> set (activePlots (fst (step e s))) \<and> \<not> cache_truthy s r
        then 1 else 0)"
proof (cases e)
  case (CheckboxChange x)
  from d have "distinct (activePlots (s\<lparr>activePlots := toggle x (activePlots s)\<rparr>))"
    by (simp add: toggle_distinct)
  from effect_on_demand_exact [OF this, of r] show ?thesis
    by (simp add: CheckboxChange setActivePlots_def Let_def sets_selection_def)
next
  case (RunsSettled res)
  show ?thesis
    by (auto simp: RunsSettled sets_selection_def on_demand_fetches_def default_selections_def
          fetchRuns_def fetchRuns_try_def setActivePlots_def default_selection_effect_def
          Let_def cache_population_effect_def
        split: sum.splits)
qed (auto simp: sets_selection_def on_demand_fetches_def default_selections_def
       count_refresh_map fetchLiveResults_def fetchLiveResults_try_def fetchRunData_def
       fetchRunData_try_def
     split: sum.splits)

lemma step_on_demand_le:
  "distinct (activePlots s) \<Longrightarrow>
   on_demand_fetches r (snd (step e s))
     \<le> (if is_toggle e then 1 else 0) + default_selections (snd (step e s))"
  using step_on_demand_exact [of s r e]
  by (auto simp: sets_selection_def split: if_splits)

lemma exec_on_demand_le:
  "distinct (activePlots s) \<Longrightarrow>
   on_demand_fetches r (snd (exec es s)) \<le> selection_changes es (snd (exec es s))"
proof (induction es arbitrary: s)
  case Nil
  then show ?case by (simp add: on_demand_fetches_def)
next
  case (Cons e es)
  have d: "distinct (activePlots (fst (step e s)))" using Cons.prems by (rule step_distinct)
  have "on_demand_fetches r (snd (exec (e # es) s))
        = on_demand_fetches r (snd (step e s))
          + on_demand_fetches r (snd (exec es (fst (step e s))))"
    by (simp add: exec_snd on_demand_fetches_def del: exec.simps(2))
  moreover have "selection_changes (e # es) (snd (exec (e # es) s))
        = (if is_toggle e then 1 else 0) + default_selections (snd (step e s))
          + selection_changes es (snd (exec es (fst (step e s))))"
    by (simp add: exec_snd selection_changes_def default_selections_def del: exec.simps(2))
  ultimately show ?case
    using Cons.IH [OF d] step_on_demand_le [OF Cons.prems, of r e] by simp
qed

lemma step_cache_kept: "runDataCache s r \<noteq> None \<Longrightarrow> runDataCache (fst (step e s)) r \<noteq> None"
  by (cases e)
     (auto simp: fetchLiveResults_def fetchLiveResults_try_def fetchRuns_def fetchRuns_try_def
        fetchRunData_def fetchRunData_try_def setActivePlots_def default_selection_effect_def
        Let_def
      split: sum.splits)

lemma step_on_demand_cached:
  "runDataCache s r \<noteq> None \<Longrightarrow> on_demand_fetches r (snd (step e s)) = 0"
  by (cases e)
     (auto simp: on_demand_fetches_def count_list_0_iff fetchLiveResults_def
        fetchLiveResults_try_def fetchRuns_def fetchRuns_try_def fetchRunData_def
        fetchRunData_try_def setActivePlots_def default_selection_effect_def Let_def
        cache_population_effect_def cache_truthy_def count_refresh_map
      split: sum.splits)

lemma exec_on_demand_cached:
  "runDataCache s r \<noteq> None \<Longrightarrow> on_demand_fetches r (snd (exec es s)) = 0"
proof (induction es arbitrary: s)
  case Nil
  then show ?case by (simp add: on_demand_fetches_def)
next
  case (Cons e es)
  have "on_demand_fetches r (snd (exec (e # es) s))
        = on_demand_fetches r (snd (step e s))
          + on_demand_fetches r (snd (exec es (fst (step e s))))"
    by (simp add: exec_snd on_demand_fetches_def del: exec.simps(2))
  with Cons.IH [OF step_cache_kept [OF Cons.prems]] step_on_demand_cached [OF Cons.prems]
  show ?case by simp
qed

lemma settled_no_refetch:
  "on_demand_fetches r (snd (step (RunDataSettled r res) s)) = 0
   \<and> on_demand_fetches r
        (cache_population_effect (fst (step (RunDataSettled r (Inr (Inr json))) s))) = 0"
proof -
  have "runDataCache (fst (step (RunDataSettled r (Inr (Inr json))) s)) r \<noteq> None"
    by (simp add: fetchRunData_def fetchRunData_try_def await2_def)
  from effect_on_demand_cached [OF this] show ?thesis
    by (auto simp: on_demand_fetches_def fetchRunData_def fetchRunData_try_def split: sum.splits)
qed

text \<open>
  Claim C4 says that an on-demand fetch for a selected identifier is issued at most once
  before its cache entry exists. The cache-population effect runs again at every change
  of the selection and knows nothing of fetches still under way, so this is what holds
  instead (C4, amended): in a step that sets the selection (a checkbox click or a
  default selection) the effect issues exactly one on-demand fetch for every identifier
  that is selected after the step and for which \<^verbatim>\<open>runDataCache[id]\<close> is falsy, that
  is, which has no cache entry and is not the name of a property every object
  inherits; in every other step, and for every other identifier, it issues none. So
  the on-demand fetches for an identifier number at most one per change of the
  selection; once the identifier has a cache entry no on-demand fetch for it is issued
  ever again; the completion of its fetch issues none, and evaluating the
  cache-population rule after a successful completion issues none.
\<close>

theorem on_demand_fetch_at_selection_change:
  "(distinct (activePlots s) \<longrightarrow>
      on_demand_fetches r (snd (step e s))
        = (if sets_selection e s \<and> r \<in> set (activePlots (fst (step e s)))
              \<and> runDataCache s r = None \<and> r \<notin> set object_prototype_keys
           then 1 else 0))
   \<and> on_demand_fetches r (snd (exec es initial_state))
       \<le> selection_changes es (snd (exec es initial_state))
   \<and> (runDataCache s r \<noteq> None \<longrightarrow> on_demand_fetches r (snd (exec es s)) = 0)
   \<and> on_demand_fetches r (snd (step (RunDataSettled r res) s)) = 0
   \<and> on_demand_fetches r
        (cache_population_effect (fst (step (RunDataSettled r (Inr (Inr json))) s))) = 0"
proof -
  have i: "distinct (activePlots initial_state)" by (simp add: initial_state_def)
  have "distinct (activePlots s) \<longrightarrow>
      on_demand_fetches r (snd (step e s))
        = (if sets_selection e s \<and> r \<in> set (activePlots (fst (step e s)))
              \<and> runDataCache s r = None \<and> r \<notin> set object_prototype_keys
           then 1 else 0)"
    using step_on_demand_exact [of s r e] by (simp add: cache_truthy_def)
  with exec_on_demand_le [OF i, of r es] exec_on_demand_cached [of s r es]
    settled_no_refetch [of r res s json]
  show ?thesis by blast
qed

text \<open>
  Instances: ticking a third run while the first is selected without data fetches the
  first again and the third, but not the second, which has data; ticking a run whose
  identifier is \<^verbatim>\<open>constructor\<close> fetches nothing for it.
\<close>

theorem on_demand_fetch_at_selection_change_witness:
  "distinct (activePlots sample_state)
   \<and> on_demand_fetches ''r1'' (snd (step (CheckboxChange ''r3'') sample_state)) = 1
   \<and> on_demand_fetches ''r2'' (snd (step (CheckboxChange ''r3'') sample_state)) = 0
   \<and> on_demand_fetches ''r3'' (snd (step (CheckboxChange ''r3'') sample_state)) = 1
   \<and> on_demand_fetches ''constructor'' (snd (step (CheckboxChange ''constructor'') sample_state)) = 0
   \<and> on_demand_fetches ''r1'' (snd (step RunTick sample_state)) = 0
   \<and> on_demand_fetches ''r1'' (snd (exec trace_refetch initial_state)) = 2
   \<and> selection_changes trace_refetch (snd (exec trace_refetch initial_state)) = 2
   \<and> runDataCache sample_state ''r2'' \<noteq> None
   \<and> on_demand_fetches ''r2'' (snd (exec trace_refetch sample_state)) = 0"
proof -
  have a: "distinct (activePlots sample_state)" "runDataCache sample_state ''r2'' \<noteq> None"
    "runDataCache sample_state ''r1'' = None" "runDataCache sample_state ''r3'' = None"
    "runDataCache sample_state ''constructor'' = None"
    by (simp_all add: sample_state_def)
  have b: "on_demand_fetches ''r1'' (snd (exec trace_refetch initial_state)) = 2"
    "selection_changes trace_refetch (snd (exec trace_refetch initial_state)) = 2"
    by (simp_all add: sample_defs fetch_defs effect_defs count_defs)
  have c: "activePlots (fst (step (CheckboxChange ''r3'') sample_state)) = [''r1'', ''r2'', ''r3'']"
    "activePlots (fst (step RunTick sample_state)) = [''r1'', ''r2'']"
    "sets_selection (CheckboxChange ''r3'') sample_state"
    "sets_selection (CheckboxChange ''constructor'') sample_state"
    "\<not> sets_selection RunTick sample_state"
    by (simp_all add: sample_state_def setActivePlots_def toggle_def Let_def sets_selection_def
        default_selections_def)
  from on_demand_fetch_at_selection_change
         [of sample_state "''r1''" "CheckboxChange ''r3''"]
       on_demand_fetch_at_selection_change
         [of sample_state "''r2''" "CheckboxChange ''r3''" trace_refetch]
       on_demand_fetch_at_selection_change
         [of sample_state "''r3''" "CheckboxChange ''r3''"]
       on_demand_fetch_at_selection_change
         [of sample_state "''constructor''" "CheckboxChange ''constructor''"]
       on_demand_fetch_at_selection_change
         [of sample_state "''r1''" RunTick]
       a b c
  show ?thesis by (simp add: object_prototype_keys_def)
qed

text \<open>
  C4 as stated fails: the first run is selected by default and its fetch starts; before
  any data arrives the user shows all runs and ticks the second one, and the effect
  starts a second fetch for the first run, which still has no cache entry. Every event
  of this execution is one the page offers.
\<close>

theorem on_demand_fetch_issued_twice:
  "feasible trace_refetch initial_state
   \<and> runDataCache (fst (exec trace_refetch initial_state)) ''r1'' = None
   \<and> \<not> (on_demand_fetches ''r1'' (snd (exec trace_refetch initial_state)) \<le> 1)"
  by (simp add: sample_defs fetch_defs effect_defs count_defs)

section \<open>Chart series\<close>

lemma plot_entry_Some:
  "plot_entry s (idx, runId) = Some tr \<Longrightarrow>
   \<exists>d. runDataCache s runId = Some d \<and> steps d \<noteq> [] \<and> trace_x tr = steps d
       \<and> trace_y tr = returns d \<and> trace_name tr = runId
       \<and> line_color tr = colors ! (idx mod 6) \<and> runId \<in> set (map run (runs s))"
  by (auto simp: plot_entry_def colors_def find_Some_iff split: option.splits if_splits)

lemma plot_data_mem:
  "tr \<in> set (plot_data s) \<longleftrightarrow>
   (\<exists>idx < length (activePlots s). plot_entry s (idx, activePlots s ! idx) = Some tr)"
  by (auto simp: plot_data_def List.map_filter_def in_set_enumerate_eq image_iff)

lemma plot_entry_exact:
  "plot_entry s (idx, runId)
     = (if plottable s runId then Some (spec_series s (idx, runId)) else None)"
proof (cases "find (\<lambda>r. run r = runId) (runs s)")
  case None
  then have "runId \<notin> set (map run (runs s))" by (auto simp: find_None_iff)
  with None show ?thesis by (simp add: plot_entry_def plottable_def)
next
  case (Some rn)
  then have "run rn = runId" "runId \<in> set (map run (runs s))"
    by (auto simp: find_Some_iff)
  with Some show ?thesis
    by (simp add: plot_entry_def plottable_def spec_series_def colors_def
        split: option.splits)
qed

lemma map_filter_exact:
  "(\<And>x. x \<in> set xs \<Longrightarrow> f x = (if P x then Some (g x) else None))
   \<Longrightarrow> List.map_filter f xs = map g (filter P xs)"
  by (induction xs) simp_all

lemma plot_data_exact:
  "plot_data s
     = map (spec_series s)
         (filter (\<lambda>(idx, runId). plottable s runId) (enumerate 0 (activePlots s)))"
  unfolding plot_data_def
  by (rule map_filter_exact) (auto simp: plot_entry_exact)

lemma filter_snd_enumerate:
  "map snd (filter (\<lambda>(idx, x). P x) (enumerate n xs)) = filter P xs"
  by (induction xs arbitrary: n) simp_all

lemma plot_data_names: "map trace_name (plot_data s) = filter (plottable s) (activePlots s)"
proof -
  have "map trace_name (plot_data s)
        = map snd (filter (\<lambda>(idx, runId). plottable s runId) (enumerate 0 (activePlots s)))"
    by (simp add: plot_data_exact spec_series_def split_beta comp_def)
  then show ?thesis by (simp add: filter_snd_enumerate)
qed

text \<open>
  Claim C8: every series given to the chart comes from a selected identifier that has a
  cache entry with a non-empty \<^verbatim>\<open>steps\<close> sequence; it has the cached steps as x, the
  cached returns as y, the identifier as its label, and the colour at the identifier's
  position in the selection, taken modulo the six colours of the palette. A selected
  identifier with no cache entry, or with an empty cached \<^verbatim>\<open>steps\<close> sequence, has no
  series at all. More precisely, the chart data is exactly one such series, in the
  order of the selection, for every selected identifier that has such a cache entry and
  whose run is in the run list; a selected identifier whose run is not in the run list
  has no series either, cached or not.
\<close>

theorem plot_data_from_cached_selection:
  "plot_data s
     = map (spec_series s)
         (filter (\<lambda>(idx, runId). plottable s runId) (enumerate 0 (activePlots s)))
   \<and> map trace_name (plot_data s) = filter (plottable s) (activePlots s)
   \<and> (\<forall>tr \<in> set (plot_data s). \<exists>idx d. idx < length (activePlots s)
        \<and> runDataCache s (activePlots s ! idx) = Some d \<and> steps d \<noteq> []
        \<and> trace_x tr = steps d \<and> trace_y tr = returns d
        \<and> trace_name tr = activePlots s ! idx
        \<and> line_color tr = colors ! (idx mod 6))
   \<and> (\<forall>r \<in> set (activePlots s).
        (runDataCache s r = None \<or> (\<exists>d. runDataCache s r = Some d \<and> steps d = []))
        \<longrightarrow> \<not> (\<exists>tr \<in> set (plot_data s). trace_name tr = r))
   \<and> (\<forall>r \<in> set (activePlots s).
        r \<notin> set (map run (runs s)) \<longrightarrow> \<not> (\<exists>tr \<in> set (plot_data s). trace_name tr = r))
   \<and> length colors = 6"
proof (intro conjI ballI impI)
  show "plot_data s
     = map (spec_series s)
         (filter (\<lambda>(idx, runId). plottable s runId) (enumerate 0 (activePlots s)))"
    by (rule plot_data_exact)
next
  show "map trace_name (plot_data s) = filter (plottable s) (activePlots s)"
    by (rule plot_data_names)
next
  fix tr assume "tr \<in> set (plot_data s)"
  then obtain idx where i: "idx < length (activePlots s)"
    and p: "plot_entry s (idx, activePlots s ! idx) = Some tr"
    by (auto simp: plot_data_mem)
  from plot_entry_Some [OF p] i
  show "\<exists>idx d. idx < length (activePlots s)
        \<and> runDataCache s (activePlots s ! idx) = Some d \<and> steps d \<noteq> []
        \<and> trace_x tr = steps d \<and> trace_y tr = returns d
        \<and> trace_name tr = activePlots s ! idx
        \<and> line_color tr = colors ! (idx mod 6)" by blast
next
  fix r assume "r \<in> set (activePlots s)"
    and c: "runDataCache s r = None \<or> (\<exists>d. runDataCache s r = Some d \<and> steps d = [])"
  show "\<not> (\<exists>tr \<in> set (plot_data s). trace_name tr = r)"
  proof
    assume "\<exists>tr \<in> set (plot_data s). trace_name tr = r"
    then obtain tr idx where n: "trace_name tr = r"
      and p: "plot_entry s (idx, activePlots s ! idx) = Some tr"
      by (auto simp: plot_data_mem)
    from plot_entry_Some [OF p] n c show False by auto
  qed
next
  fix r assume "r \<in> set (activePlots s)" and c: "r \<notin> set (map run (runs s))"
  show "\<not> (\<exists>tr \<in> set (plot_data s). trace_name tr = r)"
  proof
    assume "\<exists>tr \<in> set (plot_data s). trace_name tr = r"
    then obtain tr idx where n: "trace_name tr = r"
      and p: "plot_entry s (idx, activePlots s ! idx) = Some tr"
      by (auto simp: plot_data_mem)
    from plot_entry_Some [OF p] n c show False by auto
  qed
next
  show "length colors = 6" by (simp add: colors_def)
qed

text \<open>
  Instances: with r1 selected without data and r2 selected with data, the chart holds
  the one series of r2, in the second colour; with r0, r1 and r2 selected and cached
  but r0 no longer listed, it holds the series of r1 and r2 in the second and third
  colours.
\<close>

theorem plot_data_from_cached_selection_witness:
  "plot_data sample_state =
     [\<lparr>trace_x = [Num 1, Num 2, NaN, Num 4],
       trace_y = [Num (1 / 10), Num (1 / 5), Num (3 / 10), Num (2 / 5)],
       trace_type = ''scatter'', trace_mode = ''lines'', line_color = ''#76a5e9'',
       line_shape = ''linear'', trace_name = ''r2''\<rparr>]
   \<and> ''r1'' \<in> set (activePlots sample_state) \<and> runDataCache sample_state ''r1'' = None
   \<and> \<not> (\<exists>tr \<in> set (plot_data sample_state). trace_name tr = ''r1'')
   \<and> (\<exists>idx d. idx < length (activePlots sample_state)
        \<and> runDataCache sample_state (activePlots sample_state ! idx) = Some d \<and> steps d \<noteq> []
        \<and> trace_x (hd (plot_data sample_state)) = steps d
        \<and> trace_y (hd (plot_data sample_state)) = returns d
        \<and> trace_name (hd (plot_data sample_state)) = activePlots sample_state ! idx
        \<and> line_color (hd (plot_data sample_state)) = colors ! (idx mod 6))
   \<and> ''r0'' \<in> set (activePlots sample_state_unlisted)
   \<and> ''r0'' \<notin> set (map run (runs sample_state_unlisted))
   \<and> \<not> (\<exists>tr \<in> set (plot_data sample_state_unlisted). trace_name tr = ''r0'')
   \<and> filter (plottable sample_state_unlisted) (activePlots sample_state_unlisted)
       = [''r1'', ''r2'']
   \<and> map trace_name (plot_data sample_state_unlisted) = [''r1'', ''r2'']
   \<and> map line_color (plot_data sample_state_unlisted) = [''#76a5e9'', ''#e97676'']"
proof -
  have p: "plot_data sample_state =
     [\<lparr>trace_x = [Num 1, Num 2, NaN, Num 4],
       trace_y = [Num (1 / 10), Num (1 / 5), Num (3 / 10), Num (2 / 5)],
       trace_type = ''scatter'', trace_mode = ''lines'', line_color = ''#76a5e9'',
       line_shape = ''linear'', trace_name = ''r2''\<rparr>]"
    by (simp add: plot_data_def plot_entry_def colors_def sample_defs parse_series_def
        parse_defs enumerate_eq_zip upt_rec)
  have a: "''r1'' \<in> set (activePlots sample_state)" "runDataCache sample_state ''r1'' = None"
    by (simp_all add: sample_defs)
  have m: "hd (plot_data sample_state) \<in> set (plot_data sample_state)"
    by (simp add: p)
  have u: "''r0'' \<in> set (activePlots sample_state_unlisted)"
    "''r0'' \<notin> set (map run (runs sample_state_unlisted))"
    by (simp_all add: sample_state_unlisted_def summary_def)
  have f: "filter (\<lambda>(idx, runId). plottable sample_state_unlisted runId)
             (enumerate 0 (activePlots sample_state_unlisted)) = [(1, ''r1''), (2, ''r2'')]"
    "filter (plottable sample_state_unlisted) (activePlots sample_state_unlisted)
       = [''r1'', ''r2'']"
    by (simp_all add: plottable_def sample_state_unlisted_def summary_def sample_json_def
        parse_series_def enumerate_eq_zip upt_rec)
  from plot_data_from_cached_selection [of sample_state_unlisted] f u
  have q: "map trace_name (plot_data sample_state_unlisted) = [''r1'', ''r2'']"
    "map line_color (plot_data sample_state_unlisted) = [''#76a5e9'', ''#e97676'']"
    "\<not> (\<exists>tr \<in> set (plot_data sample_state_unlisted). trace_name tr = ''r0'')"
    by (simp_all add: spec_series_def colors_def)
  from plot_data_from_cached_selection [of sample_state] p a m
  have "\<not> (\<exists>tr \<in> set (plot_data sample_state). trace_name tr = ''r1'')
    \<and> (\<exists>idx d. idx < length (activePlots sample_state)
        \<and> runDataCache sample_state (activePlots sample_state ! idx) = Some d \<and> steps d \<noteq> []
        \<and> trace_x (hd (plot_data sample_state)) = steps d
        \<and> trace_y (hd (plot_data sample_state)) = returns d
        \<and> trace_name (hd (plot_data sample_state)) = activePlots sample_state ! idx
        \<and> line_color (hd (plot_data sample_state)) = colors ! (idx mod 6))"
    by blast
  with p a u f q show ?thesis by blast
qed

section \<open>The elapsed-time cell\<close>

lemma elapsed_cell_nonzero:
  "e \<noteq> 0 \<Longrightarrow> elapsed_cell (r\<lparr>elapsed_min := Some e\<rparr>)
     = padStart 2 (CHR ''0'') (toString (e div 60)) @ '':''
       @ padStart 2 (CHR ''0'') (toString (js_rem e 60))"
  by (simp add: elapsed_cell_def Let_def)

lemma toString_small:
  "toString 0 = ''0''" "toString 2 = ''2''" "toString 5 = ''5''" "toString 59 = ''59''"
  by (simp_all add: toString_def nat_digits.simps digit_char_def)

lemma js_rem_pos: "0 < n \<Longrightarrow> js_rem n 60 = n mod 60"
  by (simp add: js_rem_def)

lemma floor60: "\<lfloor>(of_int n :: rat) / 60\<rfloor> = n div 60"
  by (metis floor_divide_of_int_eq of_int_numeral)

text \<open>
  Claim C6 gives the elapsed cell in general as the quotient by 60 and the remainder,
  both zero-padded to two digits. The cell is guarded by the truthiness of
  \<^verbatim>\<open>elapsed_min\<close>, so the general rule does not hold at 0, and this is what holds
  instead (C6, amended): 125 renders as 02:05, 59 renders as 00:59, an absent value
  renders the placeholder, and for every row whose \<^verbatim>\<open>elapsed_min\<close> is a positive
  whole number of minutes (below \<open>2 ^ 53\<close>) the cell is the quotient by 60 and the
  remainder modulo 60, each zero-padded to two digits.
\<close>

theorem elapsed_cell_hhmm:
  "(0 < n \<and> n < 2 ^ 53 \<longrightarrow> elapsed_cell (r\<lparr>elapsed_min := Some n\<rparr>) = spec_hhmm n)
   \<and> elapsed_cell (r\<lparr>elapsed_min := Some 125\<rparr>) = ''02:05''
   \<and> elapsed_cell (r\<lparr>elapsed_min := Some 59\<rparr>) = ''00:59''
   \<and> elapsed_cell (r\<lparr>elapsed_min := None\<rparr>) = ''-''"
proof (intro conjI impI)
  assume "0 < n \<and> n < 2 ^ 53"
  then have "0 < n" by (rule conjunct1)
  then show "elapsed_cell (r\<lparr>elapsed_min := Some n\<rparr>) = spec_hhmm n"
    by (simp add: elapsed_cell_nonzero spec_hhmm_def js_rem_pos floor60)
next
  show "elapsed_cell (r\<lparr>elapsed_min := Some 125\<rparr>) = ''02:05''"
    by (simp add: elapsed_cell_nonzero js_rem_pos toString_small padStart_def)
next
  show "elapsed_cell (r\<lparr>elapsed_min := Some 59\<rparr>) = ''00:59''"
    by (simp add: elapsed_cell_nonzero js_rem_pos toString_small padStart_def)
next
  show "elapsed_cell (r\<lparr>elapsed_min := None\<rparr>) = ''-''"
    by (simp add: elapsed_cell_def)
qed

theorem elapsed_cell_hhmm_witness:
  "(0::int) < 125 \<and> (125::int) < 2 ^ 53
   \<and> elapsed_cell (summary ''r1'' (Some 125)) = spec_hhmm 125
   \<and> spec_hhmm 125 = ''02:05''"
proof -
  have h: "(0::int) < 125 \<and> (125::int) < 2 ^ 53" by simp
  have e: "(summary ''r1'' None)\<lparr>elapsed_min := Some 125\<rparr> = summary ''r1'' (Some 125)"
    by (simp add: summary_def)
  from elapsed_cell_hhmm [of 125 "summary ''r1'' None"] h e show ?thesis by auto
qed

text \<open>
  C6 as stated fails at 0: the general rule gives 00:00 there, and the cell shows
  something else.
\<close>

theorem elapsed_zero_not_hhmm:
  "\<not> (elapsed_cell (summary ''r1'' (Some 0)) = spec_hhmm 0) \<and> spec_hhmm 0 = ''00:00''"
  by (simp add: elapsed_cell_def spec_hhmm_def summary_def padStart_def toString_small)

text \<open>
  Claim C9: a row whose \<^verbatim>\<open>elapsed_min\<close> is exactly 0 renders the placeholder and not
  00:00, whatever its other fields are.
\<close>

theorem elapsed_zero_placeholder:
  "elapsed_cell (r\<lparr>elapsed_min := Some 0\<rparr>) = ''-''
   \<and> elapsed_cell (r\<lparr>elapsed_min := Some 0\<rparr>) \<noteq> ''00:00''"
  by (simp add: elapsed_cell_def)

end
